theory Spec2Isabelle
  imports Complex_Main
begin

section \<open>Data model of the web client (web/src/types/game.ts)\<close>

text \<open>
  The TypeScript interfaces become records. A field called \<open>id\<close> or \<open>is_free\<close> occurs
  in several interfaces, so it carries the initial of its interface. Identifiers and
  container counts are the unsigned integers the engine hands over, hence \<open>nat\<close>;
  \<open>processing_speed\<close> is a multiplier (\<open>1\<close> is the baseline) and the score may go
  below zero.
\<close>

record Ship =
  s_id :: nat
  containers :: nat
  containers_remaining :: nat
  arrival_time :: nat
  is_docked :: bool
  docked_at :: "nat option"
  assigned_cranes :: "nat list"

record Berth =
  b_id :: nat
  b_is_free :: bool
  occupied_by :: "nat option"

record Crane =
  c_id :: nat
  c_is_free :: bool
  assigned_to :: "nat option"
  processing_speed :: rat

record PortState =
  player_id :: string
  ships :: "Ship list"
  berths :: "Berth list"
  cranes :: "Crane list"
  score :: int
  current_time :: nat

record RandomEvent =
  ev_type :: string
  ev_description :: string

record ActiveEffect =
  description :: string
  turns_remaining :: nat

record GameState =
  playerPort :: PortState
  aiPort :: PortState
  currentTurn :: nat
  isGameOver :: bool
  winner :: "string option"
  activeEvents :: "RandomEvent list"
  activeEffects :: "ActiveEffect list"

section \<open>The Ship component (web/src/components/Ship.tsx)\<close>

text \<open>
  A JavaScript number that results from a division: a finite value, an infinity or NaN.
\<close>

datatype jsfloat = Finite rat | PosInfinity | NegInfinity | NotANumber

text \<open>
  JavaScript division of two finite numbers. Dividing by zero does not raise: it gives
  NaN for \<open>0 / 0\<close> and an infinity otherwise. \<open>rnd\<close> is the rounding of the result to
  a double.
\<close>

definition js_div :: "(rat \<Rightarrow> rat) \<Rightarrow> rat \<Rightarrow> rat \<Rightarrow> jsfloat" where
  "js_div rnd x y =
     (if y = 0 then (if x = 0 then NotANumber
                     else if 0 < x then PosInfinity else NegInfinity)
      else Finite (rnd (x / y)))"

text \<open>Multiplication by a positive finite constant, as in \<open>q * 100\<close>.\<close>

definition js_times :: "(rat \<Rightarrow> rat) \<Rightarrow> jsfloat \<Rightarrow> rat \<Rightarrow> jsfloat" where
  "js_times rnd q k =
     (case q of
        Finite v \<Rightarrow> Finite (rnd (v * k))
      | PosInfinity \<Rightarrow> (if 0 < k then PosInfinity else if k < 0 then NegInfinity else NotANumber)
      | NegInfinity \<Rightarrow> (if 0 < k then NegInfinity else if k < 0 then PosInfinity else NotANumber)
      | NotANumber \<Rightarrow> NotANumber)"

text \<open>
  \<open>const progress = ((ship.containers - ship.containers_remaining) / ship.containers) * 100\<close>.
  The subtraction is the subtraction of numbers, not the truncating one of \<open>nat\<close>.
\<close>

definition progress :: "(rat \<Rightarrow> rat) \<Rightarrow> Ship \<Rightarrow> jsfloat" where
  "progress rnd ship =
     js_times rnd
       (js_div rnd (rnd (of_nat (containers ship) - of_nat (containers_remaining ship)))
                   (of_nat (containers ship)))
       100"

text \<open>
  What the proof needs of the rounding to doubles: it is monotone and leaves the
  representable numbers \<open>0\<close>, \<open>1\<close>, \<open>100\<close> and the ship's container count alone.
\<close>

definition rounding_for :: "(rat \<Rightarrow> rat) \<Rightarrow> Ship \<Rightarrow> bool" where
  "rounding_for rnd ship \<longleftrightarrow>
     (\<forall>x y. x \<le> y \<longrightarrow> rnd x \<le> rnd y) \<and> rnd 0 = 0 \<and> rnd 1 = 1 \<and> rnd 100 = 100 \<and>
     rnd (of_nat (containers ship)) = of_nat (containers ship)"

definition in_percent_range :: "jsfloat \<Rightarrow> bool" where
  "in_percent_range p = (case p of Finite v \<Rightarrow> 0 \<le> v \<and> v \<le> 100 | _ \<Rightarrow> False)"

definition is_finite :: "jsfloat \<Rightarrow> bool" where
  "is_finite p = (case p of Finite v \<Rightarrow> True | _ \<Rightarrow> False)"

section \<open>Drag and drop of a ship onto a berth\<close>

subsection \<open>Numbers as text: \<open>Number.prototype.toString\<close> and \<open>parseInt\<close>\<close>

text \<open>A number that is an identifier on its way through the client: an integer or NaN.\<close>

datatype jsnum = JNaN | JNum int

definition digit_char :: "nat \<Rightarrow> char" where
  "digit_char d =
     (if d = 0 then CHR ''0'' else if d = 1 then CHR ''1'' else if d = 2 then CHR ''2''
      else if d = 3 then CHR ''3'' else if d = 4 then CHR ''4'' else if d = 5 then CHR ''5''
      else if d = 6 then CHR ''6'' else if d = 7 then CHR ''7'' else if d = 8 then CHR ''8''
      else CHR ''9'')"

fun digits :: "nat \<Rightarrow> nat list" where
  "digits n = (if n < 10 then [n] else digits (n div 10) @ [n mod 10])"

declare digits.simps [simp del]

text \<open>
  \<open>ship.id.toString()\<close>. Up to \<open>Number.MAX_SAFE_INTEGER\<close> = \<open>2\<^sup>5\<^sup>3 - 1\<close> a number is
  one integer and its text is the decimal digits of that integer. Beyond it the text
  is the shortest one that reads back as the same double, in exponent notation from
  \<open>10\<^sup>2\<^sup>1\<close> (\<open>1e+21\<close>): that printing is the parameter \<open>beyond\<close> here, and nothing is
  proved about it.
\<close>

definition MAX_SAFE_INTEGER :: nat where
  "MAX_SAFE_INTEGER = 2 ^ 53 - 1"

definition decimal :: "nat \<Rightarrow> string" where
  "decimal n = map digit_char (digits n)"

definition toString :: "(nat \<Rightarrow> string) \<Rightarrow> nat \<Rightarrow> string" where
  "toString beyond n = (if n \<le> MAX_SAFE_INTEGER then decimal n else beyond n)"

text \<open>The value of a character as a digit of the given radix, if it is one.\<close>

definition digit_table :: "(char \<times> nat) list" where
  "digit_table =
     [(CHR ''0'', 0), (CHR ''1'', 1), (CHR ''2'', 2), (CHR ''3'', 3), (CHR ''4'', 4),
      (CHR ''5'', 5), (CHR ''6'', 6), (CHR ''7'', 7), (CHR ''8'', 8), (CHR ''9'', 9),
      (CHR ''a'', 10), (CHR ''b'', 11), (CHR ''c'', 12), (CHR ''d'', 13), (CHR ''e'', 14),
      (CHR ''f'', 15), (CHR ''A'', 10), (CHR ''B'', 11), (CHR ''C'', 12), (CHR ''D'', 13),
      (CHR ''E'', 14), (CHR ''F'', 15)]"

definition digit_value :: "nat \<Rightarrow> char \<Rightarrow> nat option" where
  "digit_value radix c =
     (case map_of digit_table c of
        None \<Rightarrow> None
      | Some d \<Rightarrow> if d < radix then Some d else None)"

definition digits_value :: "nat \<Rightarrow> nat list \<Rightarrow> nat" where
  "digits_value radix ds = foldl (\<lambda>acc d. acc * radix + d) 0 ds"

definition is_space :: "char \<Rightarrow> bool" where
  "is_space c \<longleftrightarrow> c = CHR '' '' \<or> c = CHR 0x09 \<or> c = CHR 0x0A \<or> c = CHR 0x0B \<or>
                  c = CHR 0x0C \<or> c = CHR 0x0D"

text \<open>
  \<open>parseInt(str)\<close> with no radix argument: leading white space is skipped, a sign is
  read, a prefix \<open>0x\<close> selects radix 16, and the longest run of digits is the value;
  when there is no digit the result is NaN.
\<close>

definition parseInt :: "string \<Rightarrow> jsnum" where
  "parseInt str =
     (let s1 = dropWhile is_space str;
          neg = (case s1 of c # _ \<Rightarrow> c = CHR ''-'' | [] \<Rightarrow> False);
          s2 = (case s1 of c # r \<Rightarrow> if c = CHR ''-'' \<or> c = CHR ''+'' then r else s1
                | [] \<Rightarrow> []);
          hex = (take 2 s2 = ''0x'' \<or> take 2 s2 = ''0X'');
          radix = (if hex then 16 else 10);
          s3 = (if hex then drop 2 s2 else s2);
          ds = map (\<lambda>c. the (digit_value radix c))
                   (takeWhile (\<lambda>c. digit_value radix c \<noteq> None) s3)
      in if ds = [] then JNaN
         else JNum ((if neg then - 1 else 1) * int (digits_value radix ds)))"

subsection \<open>The WasmGame object, as the client sees it\<close>

text \<open>
  The methods of \<open>WasmGame\<close> that the hook calls. The object is implemented outside the
  web client, so it is a parameter here: \<open>'g\<close> is its internal state, a method that
  changes it returns the new state, and a method that throws returns the message
  (\<open>Some msg\<close>, or \<open>Inl msg\<close> for a method with a result).
\<close>

record 'g WasmGame =
  wg_dockShip :: "jsnum \<Rightarrow> jsnum \<Rightarrow> 'g \<Rightarrow> string option \<times> 'g"
  wg_endTurn :: "'g \<Rightarrow> string option \<times> 'g"
  wg_getPlayerPort :: "'g \<Rightarrow> string + PortState"
  wg_getAiPort :: "'g \<Rightarrow> string + PortState"
  wg_getCurrentTurn :: "'g \<Rightarrow> string + nat"
  wg_isGameOver :: "'g \<Rightarrow> string + bool"
  wg_getWinner :: "'g \<Rightarrow> string + string option"
  wg_processRandomEvents :: "'g \<Rightarrow> (string + RandomEvent list) \<times> 'g"
  wg_getActiveEffects :: "'g \<Rightarrow> string + ActiveEffect list"

subsection \<open>The hook \<open>useGame\<close> (web/src/hooks/useGame.ts)\<close>

text \<open>The React state of the hook.\<close>

record 'g Hook =
  game :: "'g option"
  gameState :: "GameState option"
  loading :: bool
  error :: "string option"

definition failed :: "string \<Rightarrow> string \<Rightarrow> 'g Hook \<Rightarrow> 'g Hook" where
  "failed what msg h = h\<lparr>error := Some (what @ msg)\<rparr>"

text \<open>
  One read inside the \<open>try\<close> block of \<open>updateGameState\<close>: when the call throws, the
  \<open>catch\<close> branch sets the error and nothing else of the block runs.
\<close>

definition tryRead :: "string + 'a \<Rightarrow> ('a \<Rightarrow> 'g Hook \<Rightarrow> 'g Hook) \<Rightarrow> 'g Hook \<Rightarrow> 'g Hook" where
  "tryRead result continue h =
     (case result of
        Inl e \<Rightarrow> failed ''Failed to update game state: '' e h
      | Inr v \<Rightarrow> continue v h)"

text \<open>
  \<open>updateGameState(g)\<close>: seven reads in the order of the source, then \<open>setGameState\<close>.
  \<open>processRandomEvents\<close> may change the game object, which the hook keeps holding.
  \<open>winner || undefined\<close> turns both \<open>null\<close> and the empty string into \<open>undefined\<close>.
\<close>

definition updateGameState :: "'g WasmGame \<Rightarrow> 'g \<Rightarrow> 'g Hook \<Rightarrow> 'g Hook" where
  "updateGameState api g =
     tryRead (wg_getPlayerPort api g) (\<lambda>pp.
     tryRead (wg_getAiPort api g) (\<lambda>ap.
     tryRead (wg_getCurrentTurn api g) (\<lambda>t.
     tryRead (wg_isGameOver api g) (\<lambda>over.
     tryRead (wg_getWinner api g) (\<lambda>w h.
     (case wg_processRandomEvents api g of (r, g') \<Rightarrow>
        tryRead r (\<lambda>evs.
        tryRead (wg_getActiveEffects api g') (\<lambda>effs h'.
          h'\<lparr>gameState := Some
               \<lparr>playerPort = pp, aiPort = ap, currentTurn = t, isGameOver = over,
                winner = (case w of None \<Rightarrow> None
                          | Some s \<Rightarrow> if s = [] then None else Some s),
                activeEvents = evs, activeEffects = effs\<rparr>\<rparr>))
          (h\<lparr>game := Some g'\<rparr>)))))))"

text \<open>
  \<open>dockShip(shipId, berthId)\<close>: nothing without a game; otherwise
  \<open>game.dockShip(shipId, berthId)\<close>, then \<open>updateGameState\<close>. An exception of the call
  is recorded and thrown again: the second component is the exception that leaves.
\<close>

definition dockShip :: "'g WasmGame \<Rightarrow> jsnum \<Rightarrow> jsnum \<Rightarrow> 'g Hook \<Rightarrow> 'g Hook \<times> string option" where
  "dockShip api shipId berthId h =
     (case game h of
        None \<Rightarrow> (h, None)
      | Some g \<Rightarrow>
          (case wg_dockShip api shipId berthId g of
             (Some e, g') \<Rightarrow> (failed ''Failed to dock ship: '' e (h\<lparr>game := Some g'\<rparr>), Some e)
           | (None, g') \<Rightarrow> (updateGameState api g' (h\<lparr>game := Some g'\<rparr>), None)))"

text \<open>
  \<open>endTurn()\<close>: the whole turn is the engine's \<open>game.endTurn()\<close>; an exception is
  recorded and not thrown again.
\<close>

definition endTurn :: "'g WasmGame \<Rightarrow> 'g Hook \<Rightarrow> 'g Hook" where
  "endTurn api h =
     (case game h of
        None \<Rightarrow> h
      | Some g \<Rightarrow>
          (case wg_endTurn api g of
             (Some e, g') \<Rightarrow> failed ''Failed to end turn: '' e (h\<lparr>game := Some g'\<rparr>)
           | (None, g') \<Rightarrow> updateGameState api g' (h\<lparr>game := Some g'\<rparr>)))"

subsection \<open>The components Ship, Berth and Port\<close>

text \<open>
  The drag data: \<open>setData(key, value)\<close> stores a string, \<open>getData(key)\<close> gives the
  empty string for a key that was never set.
\<close>

type_synonym DataTransfer = "string \<Rightarrow> string option"

definition getData :: "DataTransfer \<Rightarrow> string \<Rightarrow> string" where
  "getData dt key = (case dt key of None \<Rightarrow> [] | Some v \<Rightarrow> v)"

text \<open>Ship.tsx, \<open>onDragStart\<close>: \<open>e.dataTransfer.setData('shipId', ship.id.toString())\<close>.\<close>

definition Ship_onDragStart :: "(nat \<Rightarrow> string) \<Rightarrow> Ship \<Rightarrow> DataTransfer \<Rightarrow> DataTransfer" where
  "Ship_onDragStart beyond ship dt = dt(''shipId'' \<mapsto> toString beyond (s_id ship))"

text \<open>
  Berth.tsx, \<open>handleDrop\<close>: the ship identifier is parsed from the drag data, and the
  callback runs only when there is one and the berth is free, with the ship first:
  \<open>onDropShip(shipId, berth.id)\<close>.
\<close>

definition handleDrop ::
  "Berth \<Rightarrow> (jsnum \<Rightarrow> jsnum \<Rightarrow> 'st \<Rightarrow> 'st \<times> string option) option \<Rightarrow> DataTransfer \<Rightarrow> 'st
     \<Rightarrow> 'st \<times> string option" where
  "handleDrop berth onDropShip dt st =
     (let shipId = parseInt (getData dt ''shipId'') in
      case onDropShip of
        None \<Rightarrow> (st, None)
      | Some f \<Rightarrow> if b_is_free berth then f shipId (JNum (int (b_id berth))) st
                  else (st, None))"

text \<open>Port.tsx gives a berth its callback: \<open>onDropShip={isPlayer ? onDockShip : undefined}\<close>.\<close>

definition Port_onDropShip :: "bool \<Rightarrow> 'f option \<Rightarrow> 'f option" where
  "Port_onDropShip isPlayer onDockShip = (if isPlayer then onDockShip else None)"

text \<open>
  A ship of a port is dragged and dropped on one of its berths. App.tsx renders the
  player's port with \<open>isPlayer={true}\<close> and \<open>onDockShip={actions.dockShip}\<close>, and the
  other port with neither.
\<close>

definition dragAndDrop ::
  "'g WasmGame \<Rightarrow> (nat \<Rightarrow> string) \<Rightarrow> bool \<Rightarrow> Ship \<Rightarrow> Berth \<Rightarrow> 'g Hook
     \<Rightarrow> 'g Hook \<times> string option" where
  "dragAndDrop api beyond isPlayer ship berth h =
     handleDrop berth
       (Port_onDropShip isPlayer (if isPlayer then Some (dockShip api) else None))
       (Ship_onDragStart beyond ship Map.empty) h"

subsection \<open>A game object that keeps what it receives\<close>

text \<open>
  To observe the client, any game object is wrapped into one that behaves as it does
  and also appends to a list, inside its own state, each call that can change it,
  with the arguments in the order it receives them. The list is written by the
  object, never by the hook.
\<close>

datatype Received =
    GotDockShip jsnum jsnum
  | GotEndTurn
  | GotProcessRandomEvents

definition recording :: "'g WasmGame \<Rightarrow> ('g \<times> Received list) WasmGame" where
  "recording api =
     \<lparr>wg_dockShip = (\<lambda>a b (g, got).
         case wg_dockShip api a b g of (r, g') \<Rightarrow> (r, (g', got @ [GotDockShip a b]))),
      wg_endTurn = (\<lambda>(g, got).
         case wg_endTurn api g of (r, g') \<Rightarrow> (r, (g', got @ [GotEndTurn]))),
      wg_getPlayerPort = (\<lambda>(g, got). wg_getPlayerPort api g),
      wg_getAiPort = (\<lambda>(g, got). wg_getAiPort api g),
      wg_getCurrentTurn = (\<lambda>(g, got). wg_getCurrentTurn api g),
      wg_isGameOver = (\<lambda>(g, got). wg_isGameOver api g),
      wg_getWinner = (\<lambda>(g, got). wg_getWinner api g),
      wg_processRandomEvents = (\<lambda>(g, got).
         case wg_processRandomEvents api g of (r, g') \<Rightarrow> (r, (g', got @ [GotProcessRandomEvents]))),
      wg_getActiveEffects = (\<lambda>(g, got). wg_getActiveEffects api g)\<rparr>"

text \<open>What the game object held by the hook has received so far.\<close>

definition received :: "('g \<times> Received list) Hook \<Rightarrow> Received list" where
  "received h = (case game h of None \<Rightarrow> [] | Some (g, got) \<Rightarrow> got)"

definition dockCalls :: "Received list \<Rightarrow> (jsnum \<times> jsnum) list" where
  "dockCalls cs = concat (map (\<lambda>c. case c of GotDockShip a b \<Rightarrow> [(a, b)] | _ \<Rightarrow> []) cs)"

text \<open>
  A game object without state that accepts every call: enough to run the client alone.
\<close>

definition idleGame :: "unit WasmGame" where
  "idleGame =
     \<lparr>wg_dockShip = (\<lambda>_ _ g. (None, g)),
      wg_endTurn = (\<lambda>g. (None, g)),
      wg_getPlayerPort = (\<lambda>_. Inl ''no port''),
      wg_getAiPort = (\<lambda>_. Inl ''no port''),
      wg_getCurrentTurn = (\<lambda>_. Inr 0),
      wg_isGameOver = (\<lambda>_. Inr False),
      wg_getWinner = (\<lambda>_. Inr None),
      wg_processRandomEvents = (\<lambda>g. (Inr [], g)),
      wg_getActiveEffects = (\<lambda>_. Inr [])\<rparr>"

definition freshHook :: "(unit \<times> Received list) Hook" where
  "freshHook = \<lparr>game = Some ((), []), gameState = None, loading = False, error = None\<rparr>"

section \<open>The simulation core\<close>

text \<open>
  The engine behind \<open>WasmGame\<close> (domain model, event store, command handlers, turn
  engine, session) is written in Rust and is not part of the web client. This section
  models it from the specification; every definition says which of its sentences it
  follows.
\<close>

subsection \<open>Domain events and errors\<close>

datatype Party = Human | AI

datatype EventKind = Storm | GoodWeather | CraneBreakdown | RushHour | CustomsInspection

datatype Winner = PlayerWins | AiWins | Tie

text \<open>
  Modelled from the spec: the DomainEvent vocabulary of section 3 (the Rust enum is
  missing), each event with the identifiers, quantities and times that reconstruct its
  transition. The fields of the first three are those of the README's examples; an
  arriving ship has no party, it joins the queue of both ports. \<open>TurnEnded\<close> carries the
  new turn and the number of waiting ships charged to each port.
\<close>

datatype DomainEvent =
    ShipArrived nat nat nat
  | ShipDocked nat nat Party nat
  | CraneAssigned nat nat Party nat
  | ContainersProcessed Party nat nat
  | ShipUndocked Party nat
  | RandomEventTriggered EventKind nat nat
  | EffectExpired EventKind
  | TurnEnded nat nat nat
  | GameEnded Winner

text \<open>
  Modelled from the spec: the errors of sections 4.2 and 7 (the Rust error type is
  missing). \<open>NotFoundError\<close> stands for an unknown ship, berth or crane.
\<close>

datatype Error =
    NotFoundError
  | BerthOccupiedError
  | ShipAlreadyDockedError
  | CraneBusyError
  | ShipNotDockedError
  | GameOverError
  | FormatError

subsection \<open>Ports\<close>

definition find_ship :: "nat \<Rightarrow> PortState \<Rightarrow> Ship option" where
  "find_ship sid p = find (\<lambda>s. s_id s = sid) (ships p)"

definition find_berth :: "nat \<Rightarrow> PortState \<Rightarrow> Berth option" where
  "find_berth bid p = find (\<lambda>b. b_id b = bid) (berths p)"

definition find_crane :: "nat \<Rightarrow> PortState \<Rightarrow> Crane option" where
  "find_crane cid p = find (\<lambda>c. c_id c = cid) (cranes p)"

definition waiting_ships :: "PortState \<Rightarrow> Ship list" where
  "waiting_ships p = filter (\<lambda>s. \<not> is_docked s) (ships p)"

text \<open>
  Modelled from the spec: a port at the start of a match. The Rust constructor is
  missing; two berths, two cranes of baseline speed and a score of zero are what the
  end-to-end tests of the client expect of a new game.
\<close>

definition initial_port :: "string \<Rightarrow> PortState" where
  "initial_port pid =
     \<lparr>player_id = pid, ships = [],
      berths = [\<lparr>b_id = 0, b_is_free = True, occupied_by = None\<rparr>,
                \<lparr>b_id = 1, b_is_free = True, occupied_by = None\<rparr>],
      cranes = [\<lparr>c_id = 0, c_is_free = True, assigned_to = None, processing_speed = 1\<rparr>,
                \<lparr>c_id = 1, c_is_free = True, assigned_to = None, processing_speed = 1\<rparr>],
      score = 0, current_time = 0\<rparr>"

text \<open>
  Modelled from the spec: section 4.2, DockShip; the Rust handler is missing. The
  berth is looked at first, so an occupied berth is reported whatever the ship is, and
  the ship errors come otherwise.
\<close>

definition check_dock :: "nat \<Rightarrow> nat \<Rightarrow> PortState \<Rightarrow> Error option" where
  "check_dock sid bid p =
     (case find_berth bid p of
        None \<Rightarrow> Some NotFoundError
      | Some b \<Rightarrow>
          if \<not> b_is_free b then Some BerthOccupiedError
          else (case find_ship sid p of
                  None \<Rightarrow> Some NotFoundError
                | Some s \<Rightarrow> if is_docked s then Some ShipAlreadyDockedError else None))"

text \<open>
  Modelled from the spec: section 4.2, AssignCrane; the Rust handler is missing. A
  crane that is not free is reported first, then a target ship that is not docked.
\<close>

definition check_assign :: "nat \<Rightarrow> nat \<Rightarrow> PortState \<Rightarrow> Error option" where
  "check_assign cid sid p =
     (case find_crane cid p of
        None \<Rightarrow> Some NotFoundError
      | Some c \<Rightarrow>
          if \<not> c_is_free c then Some CraneBusyError
          else (case find_ship sid p of
                  None \<Rightarrow> Some NotFoundError
                | Some s \<Rightarrow> if is_docked s then None else Some ShipNotDockedError))"

text \<open>
  Modelled from the spec: section 3, the lifecycle of a ship; the Rust aggregate is
  missing. A ship arrives undocked with all its containers; docking links ship and
  berth; an assigned crane is busy and is added to the ship's cranes; unloading lowers
  the remaining containers and pays 10 points for each; an undocked ship frees its
  berth and its cranes and leaves the port.
\<close>

definition new_ship :: "nat \<Rightarrow> nat \<Rightarrow> nat \<Rightarrow> Ship" where
  "new_ship sid n t =
     \<lparr>s_id = sid, containers = n, containers_remaining = n, arrival_time = t,
      is_docked = False, docked_at = None, assigned_cranes = []\<rparr>"

definition port_arrive :: "nat \<Rightarrow> nat \<Rightarrow> nat \<Rightarrow> PortState \<Rightarrow> PortState" where
  "port_arrive sid n t p = p\<lparr>ships := ships p @ [new_ship sid n t]\<rparr>"

definition port_dock :: "nat \<Rightarrow> nat \<Rightarrow> PortState \<Rightarrow> PortState" where
  "port_dock sid bid p =
     p\<lparr>ships := map (\<lambda>s. if s_id s = sid then s\<lparr>is_docked := True, docked_at := Some bid\<rparr>
                          else s) (ships p),
       berths := map (\<lambda>b. if b_id b = bid then b\<lparr>b_is_free := False, occupied_by := Some sid\<rparr>
                           else b) (berths p)\<rparr>"

definition port_assign :: "nat \<Rightarrow> nat \<Rightarrow> PortState \<Rightarrow> PortState" where
  "port_assign cid sid p =
     p\<lparr>ships := map (\<lambda>s. if s_id s = sid
                          then s\<lparr>assigned_cranes := assigned_cranes s @ [cid]\<rparr> else s)
                     (ships p),
       cranes := map (\<lambda>c. if c_id c = cid then c\<lparr>c_is_free := False, assigned_to := Some sid\<rparr>
                           else c) (cranes p)\<rparr>"

definition port_unload :: "nat \<Rightarrow> nat \<Rightarrow> PortState \<Rightarrow> PortState" where
  "port_unload sid amount p =
     p\<lparr>ships := map (\<lambda>s. if s_id s = sid
                          then s\<lparr>containers_remaining := containers_remaining s - amount\<rparr>
                          else s) (ships p),
       score := score p + 10 * int amount\<rparr>"

definition port_undock :: "nat \<Rightarrow> PortState \<Rightarrow> PortState" where
  "port_undock sid p =
     p\<lparr>ships := filter (\<lambda>s. s_id s \<noteq> sid) (ships p),
       berths := map (\<lambda>b. if occupied_by b = Some sid
                           then b\<lparr>b_is_free := True, occupied_by := None\<rparr> else b) (berths p),
       cranes := map (\<lambda>c. if assigned_to c = Some sid
                           then c\<lparr>c_is_free := True, assigned_to := None\<rparr> else c) (cranes p)\<rparr>"

definition port_penalty :: "nat \<Rightarrow> nat \<Rightarrow> PortState \<Rightarrow> PortState" where
  "port_penalty t waiting p = p\<lparr>score := score p - 5 * int waiting, current_time := t\<rparr>"

subsection \<open>The projected state and the event store\<close>

text \<open>
  Modelled from the spec: section 3, GameSession, and section 4.1, projectState; the
  Rust types are missing. What the event log determines, namely the two ports, the
  shared turn counter, the game-over flag, the winner, and the next ship identifier.
\<close>

record Game =
  player_port :: PortState
  ai_port :: PortState
  turn :: nat
  game_over :: bool
  game_winner :: "Winner option"
  next_ship_id :: nat

definition initial_game :: Game where
  "initial_game =
     \<lparr>player_port = initial_port ''player'', ai_port = initial_port ''ai'', turn = 0,
      game_over = False, game_winner = None, next_ship_id = 0\<rparr>"

definition get_port :: "Party \<Rightarrow> Game \<Rightarrow> PortState" where
  "get_port party g = (case party of Human \<Rightarrow> player_port g | AI \<Rightarrow> ai_port g)"

definition set_port :: "Party \<Rightarrow> PortState \<Rightarrow> Game \<Rightarrow> Game" where
  "set_port party p g = (case party of Human \<Rightarrow> g\<lparr>player_port := p\<rparr> | AI \<Rightarrow> g\<lparr>ai_port := p\<rparr>)"

text \<open>
  Modelled from the spec: section 4.3, step 6. The higher score wins, equal scores tie.
\<close>

definition decide_winner :: "Game \<Rightarrow> Winner" where
  "decide_winner g =
     (if score (ai_port g) < score (player_port g) then PlayerWins
      else if score (player_port g) < score (ai_port g) then AiWins
      else Tie)"

text \<open>
  Modelled from the spec: section 4.1; the Rust projector is missing. One step of the
  fold over the event sequence. An event that violates a domain invariant has no
  successor state (\<open>None\<close>): a ship identifier that was used before, a dock or a crane
  assignment that the command would refuse, unloading more than remains or from a ship
  that is not docked, a turn that does not follow the current one, an end of the game
  before turn 10 or with the wrong winner, and any event after the end of the game.
\<close>

definition apply_event :: "DomainEvent \<Rightarrow> Game \<Rightarrow> Game option" where
  "apply_event e g =
     (if game_over g then None
      else case e of
        ShipArrived sid n t \<Rightarrow>
          if sid < next_ship_id g then None
          else Some (g\<lparr>player_port := port_arrive sid n t (player_port g),
                       ai_port := port_arrive sid n t (ai_port g),
                       next_ship_id := Suc sid\<rparr>)
      | ShipDocked sid bid party t \<Rightarrow>
          (case check_dock sid bid (get_port party g) of
             Some err \<Rightarrow> None
           | None \<Rightarrow> Some (set_port party (port_dock sid bid (get_port party g)) g))
      | CraneAssigned cid sid party t \<Rightarrow>
          (case check_assign cid sid (get_port party g) of
             Some err \<Rightarrow> None
           | None \<Rightarrow> Some (set_port party (port_assign cid sid (get_port party g)) g))
      | ContainersProcessed party sid amount \<Rightarrow>
          (case find_ship sid (get_port party g) of
             None \<Rightarrow> None
           | Some s \<Rightarrow>
               if is_docked s \<and> amount \<le> containers_remaining s
               then Some (set_port party (port_unload sid amount (get_port party g)) g)
               else None)
      | ShipUndocked party sid \<Rightarrow>
          (case find_ship sid (get_port party g) of
             None \<Rightarrow> None
           | Some s \<Rightarrow>
               if is_docked s then Some (set_port party (port_undock sid (get_port party g)) g)
               else None)
      | RandomEventTriggered k n c \<Rightarrow> Some g
      | EffectExpired k \<Rightarrow> Some g
      | TurnEnded t wp wa \<Rightarrow>
          if t = Suc (turn g)
          then Some (g\<lparr>player_port := port_penalty t wp (player_port g),
                       ai_port := port_penalty t wa (ai_port g),
                       turn := t\<rparr>)
          else None
      | GameEnded w \<Rightarrow>
          if 10 \<le> turn g \<and> w = decide_winner g
          then Some (g\<lparr>game_over := True, game_winner := Some w\<rparr>)
          else None)"

subsection \<open>Active effects and the random draws\<close>

text \<open>
  Modelled from the spec: section 3, ActiveEffect; the Rust type is missing. The kind
  stands for the description, then the remaining turns and the multiplier of the crane
  speed; a crane breakdown names its crane.
\<close>

record Effect =
  e_kind :: EventKind
  e_turns :: nat
  e_multiplier :: rat
  e_crane :: "nat option"

text \<open>
  Modelled from the spec: section 9. The random numbers are passed in. A draw of
  step 5 is the kind of the event, its duration and the crane a breakdown hits.
\<close>

record RandomDraw =
  rd_kind :: EventKind
  rd_duration :: nat
  rd_crane :: nat

text \<open>
  Modelled from the spec: section 4.3, step 5, the catalogue. A storm halves the
  crane efficiency, good weather multiplies it by 1.3, a customs inspection holds the
  processing up (no container moves), a breakdown makes one crane unusable; a rush
  hour changes no speed.
\<close>

definition effect_of :: "RandomDraw \<Rightarrow> Effect" where
  "effect_of d =
     \<lparr>e_kind = rd_kind d, e_turns = rd_duration d,
      e_multiplier = (case rd_kind d of Storm \<Rightarrow> 1 / 2 | GoodWeather \<Rightarrow> 13 / 10
                      | CustomsInspection \<Rightarrow> 0 | _ \<Rightarrow> 1),
      e_crane = (if rd_kind d = CraneBreakdown then Some (rd_crane d) else None)\<rparr>"

definition kind_name :: "EventKind \<Rightarrow> string" where
  "kind_name k = (case k of Storm \<Rightarrow> ''Storm'' | GoodWeather \<Rightarrow> ''GoodWeather''
                  | CraneBreakdown \<Rightarrow> ''CraneBreakdown'' | RushHour \<Rightarrow> ''RushHour''
                  | CustomsInspection \<Rightarrow> ''CustomsInspection'')"

definition crane_broken :: "Effect list \<Rightarrow> nat \<Rightarrow> bool" where
  "crane_broken effs cid = (\<exists>e \<in> set effs. e_crane e = Some cid)"

text \<open>
  Modelled from the spec: section 4.3, step 1. The speed of a crane times the
  multipliers of the active effects; a broken crane moves nothing.
\<close>

definition crane_rate :: "Effect list \<Rightarrow> Crane \<Rightarrow> rat" where
  "crane_rate effs c =
     (if crane_broken effs (c_id c) then 0
      else processing_speed c * prod_list (map e_multiplier effs))"

text \<open>
  Modelled from the spec: section 4.3, step 1, and the scenario of section 8. A crane
  of speed 1 with no effect unloads 10 containers in a turn. The containers a ship
  loses in a turn are the whole containers in the sum of its cranes' rates, and never
  more than remain.
\<close>

definition unload_amount :: "Effect list \<Rightarrow> PortState \<Rightarrow> Ship \<Rightarrow> nat" where
  "unload_amount effs p s =
     min (containers_remaining s)
         (nat \<lfloor>10 * sum_list (map (\<lambda>cid. case find_crane cid p of None \<Rightarrow> 0
                                              | Some c \<Rightarrow> crane_rate effs c)
                                   (assigned_cranes s))\<rfloor>)"

text \<open>
  Modelled from the spec: section 4.3, step 5. The counters go down by one and the
  effects that reach zero are removed; an event of a kind that is active refreshes its
  effect, another one adds an effect.
\<close>

definition tick_effects :: "Effect list \<Rightarrow> Effect list" where
  "tick_effects effs =
     filter (\<lambda>e. 0 < e_turns e) (map (\<lambda>e. e\<lparr>e_turns := e_turns e - 1\<rparr>) effs)"

definition refresh_effect :: "Effect \<Rightarrow> Effect list \<Rightarrow> Effect list" where
  "refresh_effect new effs =
     (if \<exists>e \<in> set effs. e_kind e = e_kind new
      then map (\<lambda>e. if e_kind e = e_kind new then new else e) effs
      else effs @ [new])"

subsection \<open>The session and its commands\<close>

datatype Action = DockShipAction nat nat | AssignCraneAction nat nat | PassTurn

datatype Command = DockShip nat nat | AssignCrane nat nat | SpawnShips nat | EndTurn

text \<open>
  Modelled from the spec: sections 3 and 4.5; the Rust GameSession is missing. The
  projected state, the event log it is the fold of, the active effects, and the random
  events not yet drained.
\<close>

record GameSession =
  projected :: Game
  event_log :: "DomainEvent list"
  active_effects :: "Effect list"
  pending_events :: "RandomEvent list"

text \<open>
  Modelled from the spec: section 9. What a command draws from outside the state. The
  choice of the AI for its port (the MCTS engine is one such choice), the container
  load of the ship with a given identifier, and the event of step 5 if the per-turn
  probability lets one fire.
\<close>

record Context =
  ai_policy :: "PortState \<Rightarrow> Action list"
  load_draw :: "nat \<Rightarrow> nat"
  event_draw :: "RandomDraw option"

definition newSession :: GameSession where
  "newSession =
     \<lparr>projected = initial_game, event_log = [], active_effects = [], pending_events = []\<rparr>"

text \<open>
  Modelled from the spec: sections 3 and 4.1. The state changes only by an event that
  is appended to the log, and an event that the projector refuses is not appended.
\<close>

definition emit :: "DomainEvent \<Rightarrow> GameSession \<Rightarrow> GameSession" where
  "emit e s =
     (case apply_event e (projected s) of
        None \<Rightarrow> s
      | Some g \<Rightarrow> s\<lparr>projected := g, event_log := event_log s @ [e]\<rparr>)"

definition dock_ship :: "Party \<Rightarrow> nat \<Rightarrow> nat \<Rightarrow> GameSession \<Rightarrow> Error option \<times> GameSession" where
  "dock_ship party sid bid s =
     (case check_dock sid bid (get_port party (projected s)) of
        Some err \<Rightarrow> (Some err, s)
      | None \<Rightarrow> (None, emit (ShipDocked sid bid party (turn (projected s))) s))"

definition assign_crane :: "Party \<Rightarrow> nat \<Rightarrow> nat \<Rightarrow> GameSession \<Rightarrow> Error option \<times> GameSession" where
  "assign_crane party cid sid s =
     (if crane_broken (active_effects s) cid \<and> find_crane cid (get_port party (projected s)) \<noteq> None
      then (Some CraneBusyError, s)
      else case check_assign cid sid (get_port party (projected s)) of
        Some err \<Rightarrow> (Some err, s)
      | None \<Rightarrow> (None, emit (CraneAssigned cid sid party (turn (projected s))) s))"

text \<open>
  Modelled from the spec: section 4.2, SpawnShips. One ShipArrived for each new ship,
  with the next identifier and the load drawn for it.
\<close>

fun spawnShips :: "Context \<Rightarrow> nat \<Rightarrow> GameSession \<Rightarrow> GameSession" where
  "spawnShips ctx 0 s = s"
| "spawnShips ctx (Suc n) s =
     spawnShips ctx n
       (emit (ShipArrived (next_ship_id (projected s))
                (load_draw ctx (next_ship_id (projected s))) (turn (projected s))) s)"

text \<open>
  Modelled from the spec: section 4.3, step 1. A docked ship with cranes is unloaded,
  and undocked when nothing remains.
\<close>

definition process_ship :: "Party \<Rightarrow> nat \<Rightarrow> GameSession \<Rightarrow> GameSession" where
  "process_ship party sid s =
     (case find_ship sid (get_port party (projected s)) of
        None \<Rightarrow> s
      | Some sh \<Rightarrow>
          if is_docked sh \<and> assigned_cranes sh \<noteq> []
          then (let amount = unload_amount (active_effects s) (get_port party (projected s)) sh;
                    s1 = emit (ContainersProcessed party sid amount) s
                in if containers_remaining sh - amount = 0
                   then emit (ShipUndocked party sid) s1 else s1)
          else s)"

definition processContainers :: "Party \<Rightarrow> GameSession \<Rightarrow> GameSession" where
  "processContainers party s =
     foldl (\<lambda>s' sid. process_ship party sid s') s
       (map s_id (ships (get_port party (projected s))))"

text \<open>
  Modelled from the spec: section 4.3, step 3. The chosen actions go through the
  command handlers, an action that a handler refuses changes nothing, and the
  containers of the AI's port are processed.
\<close>

definition apply_action :: "Party \<Rightarrow> Action \<Rightarrow> GameSession \<Rightarrow> GameSession" where
  "apply_action party a s =
     (case a of
        DockShipAction sid bid \<Rightarrow> snd (dock_ship party sid bid s)
      | AssignCraneAction cid sid \<Rightarrow> snd (assign_crane party cid sid s)
      | PassTurn \<Rightarrow> s)"

definition aiTakeTurn :: "Context \<Rightarrow> GameSession \<Rightarrow> GameSession" where
  "aiTakeTurn ctx s =
     processContainers AI
       (foldl (\<lambda>s' a. apply_action AI a s') s (ai_policy ctx (ai_port (projected s))))"

text \<open>
  Modelled from the spec: section 4.3, step 5. The expired effects are pruned first;
  then the drawn event, if there is one, is recorded, becomes an active effect and is
  queued for the host; a rush hour brings one more ship.
\<close>

definition resolveRandomEvent :: "Context \<Rightarrow> GameSession \<Rightarrow> GameSession" where
  "resolveRandomEvent ctx s =
     (let s1 = foldl (\<lambda>s' e. emit (EffectExpired (e_kind e)) s') s
                 (filter (\<lambda>e. e_turns e \<le> 1) (active_effects s));
          s2 = s1\<lparr>active_effects := tick_effects (active_effects s1)\<rparr>
      in case event_draw ctx of
           None \<Rightarrow> s2
         | Some d \<Rightarrow>
             (let s3 = emit (RandomEventTriggered (rd_kind d) (rd_duration d) (rd_crane d)) s2;
                  s4 = s3\<lparr>active_effects := refresh_effect (effect_of d) (active_effects s3),
                          pending_events := pending_events s3 @
                            [\<lparr>ev_type = kind_name (rd_kind d),
                              ev_description = kind_name (rd_kind d)\<rparr>]\<rparr>
              in if rd_kind d = RushHour then spawnShips ctx 1 s4 else s4))"

text \<open>
  Modelled from the spec: section 4.3, step 6. The turn counter goes up by one, and
  from turn 10 on the game is over and the winner is declared.
\<close>

definition finishTurn :: "nat \<Rightarrow> nat \<Rightarrow> GameSession \<Rightarrow> GameSession" where
  "finishTurn wp wa s =
     (let s1 = emit (TurnEnded (Suc (turn (projected s))) wp wa) s
      in if 10 \<le> turn (projected s1) then emit (GameEnded (decide_winner (projected s1))) s1
         else s1)"

text \<open>
  Modelled from the spec: section 4.3, the fixed sequence of EndTurn; the Rust turn
  engine is missing. The containers of the human port, the count of the waiting ships
  of each port for the penalty, the turn of the AI, two new ships when the number of
  the turn being completed is a multiple of three, the random event, the end of the
  turn.
\<close>

definition end_turn :: "Context \<Rightarrow> GameSession \<Rightarrow> GameSession" where
  "end_turn ctx s =
     (let s1 = processContainers Human s;
          wp = length (waiting_ships (player_port (projected s1)));
          wa = length (waiting_ships (ai_port (projected s1)));
          s3 = aiTakeTurn ctx s1;
          s4 = (if Suc (turn (projected s3)) mod 3 = 0 then spawnShips ctx 2 s3 else s3);
          s5 = resolveRandomEvent ctx s4
      in finishTurn wp wa s5)"

text \<open>
  Modelled from the spec: section 4.5, submitCommand. After the end of the game every
  command is rejected; before, it goes to its handler, for the human port.
\<close>

definition submitCommand :: "Context \<Rightarrow> Command \<Rightarrow> GameSession \<Rightarrow> Error option \<times> GameSession" where
  "submitCommand ctx cmd s =
     (if game_over (projected s) then (Some GameOverError, s)
      else case cmd of
        DockShip sid bid \<Rightarrow> dock_ship Human sid bid s
      | AssignCrane cid sid \<Rightarrow> assign_crane Human cid sid s
      | SpawnShips n \<Rightarrow> (None, spawnShips ctx n s)
      | EndTurn \<Rightarrow> (None, end_turn ctx s))"

text \<open>
  Modelled from the spec: section 6. The random events produced since the last drain;
  draining empties the queue.
\<close>

definition drainRandomEvents :: "GameSession \<Rightarrow> RandomEvent list \<times> GameSession" where
  "drainRandomEvents s = (pending_events s, s\<lparr>pending_events := []\<rparr>)"

text \<open>The sessions a host can reach: from a new one, by commands and drains.\<close>

inductive reachable :: "GameSession \<Rightarrow> bool" where
  new: "reachable newSession"
| command: "reachable s \<Longrightarrow> reachable (snd (submitCommand ctx cmd s))"
| drain: "reachable s \<Longrightarrow> reachable (snd (drainRandomEvents s))"

subsection \<open>The clock of a session\<close>

text \<open>The events that move the clock: the end of a turn and the end of the game.\<close>

definition is_clock :: "DomainEvent \<Rightarrow> bool" where
  "is_clock e = (case e of TurnEnded t wp wa \<Rightarrow> True | GameEnded w \<Rightarrow> True | _ \<Rightarrow> False)"

text \<open>The turn counter and the game-over flag of a session.\<close>

definition clock :: "GameSession \<Rightarrow> nat \<times> bool" where
  "clock s = (turn (projected s), game_over (projected s))"

text \<open>A session after a sequence of commands, each with what it draws.\<close>

definition run :: "(Context \<times> Command) list \<Rightarrow> GameSession \<Rightarrow> GameSession" where
  "run cs s = foldl (\<lambda>s' c. snd (submitCommand (fst c) (snd c) s')) s cs"

text \<open>A context that draws nothing: the AI passes, every ship carries 30 containers.\<close>

definition calm :: Context where
  "calm = \<lparr>ai_policy = (\<lambda>p. [PassTurn]), load_draw = (\<lambda>k. 30), event_draw = None\<rparr>"

text \<open>A match played to its end: ten turns in which nothing else happens.\<close>

definition ten_turns :: GameSession where
  "ten_turns = run (replicate 10 (calm, EndTurn)) newSession"

section \<open>Properties of the Ship component\<close>

lemma progress_range:
  assumes r: "rounding_for rnd ship" and c: "0 < containers ship"
    and le: "containers_remaining ship \<le> containers ship"
  shows "in_percent_range (progress rnd ship)"
proof -
  let ?c = "of_nat (containers ship) :: rat"
  let ?d = "of_nat (containers ship) - of_nat (containers_remaining ship) :: rat"
  from r have mono: "\<And>x y. x \<le> y \<Longrightarrow> rnd x \<le> rnd y"
    and r0: "rnd 0 = 0" and r1: "rnd 1 = 1" and r100: "rnd 100 = 100" and rc: "rnd ?c = ?c"
    by (auto simp: rounding_for_def)
  have cpos: "0 < ?c" using c by simp
  have d0: "0 \<le> ?d" using le by simp
  have dc: "?d \<le> ?c" by simp
  have x0: "0 \<le> rnd ?d" using mono [OF d0] r0 by simp
  have xc: "rnd ?d \<le> ?c" using mono [OF dc] rc by simp
  have q0: "0 \<le> rnd ?d / ?c" using x0 cpos by simp
  have q1: "rnd ?d / ?c \<le> 1" using xc cpos by (simp add: divide_le_eq)
  have Q0: "0 \<le> rnd (rnd ?d / ?c)" using mono [OF q0] r0 by simp
  have Q1: "rnd (rnd ?d / ?c) \<le> 1" using mono [OF q1] r1 by simp
  have p0: "0 \<le> rnd (rnd ?d / ?c) * 100" using Q0 by simp
  have p1: "rnd (rnd ?d / ?c) * 100 \<le> 100" using Q1 by simp
  have P0: "0 \<le> rnd (rnd (rnd ?d / ?c) * 100)" using mono [OF p0] r0 by simp
  have P1: "rnd (rnd (rnd ?d / ?c) * 100) \<le> 100" using mono [OF p1] r100 by simp
  have "progress rnd ship = Finite (rnd (rnd (rnd ?d / ?c) * 100))"
    using cpos by (simp add: progress_def js_div_def js_times_def)
  then show ?thesis using P0 P1 by (simp add: in_percent_range_def)
qed

lemma progress_zero: "containers ship = 0 \<Longrightarrow> \<not> is_finite (progress rnd ship)"
  by (simp add: progress_def js_div_def js_times_def is_finite_def)

text \<open>
  Claim C10. For a ship with \<open>containers > 0\<close> and \<open>containers_remaining \<le> containers\<close>
  the progress computed by the Ship component is a finite number between 0 and 100,
  whatever the rounding of the double arithmetic does within its guarantees; with
  \<open>containers = 0\<close> the unguarded division gives NaN or an infinity, so the
  precondition is needed.
\<close>

theorem ship_progress_percent:
  "(rounding_for rnd ship \<and> 0 < containers ship \<and>
      containers_remaining ship \<le> containers ship
      \<longrightarrow> in_percent_range (progress rnd ship)) \<and>
   (containers ship = 0 \<longrightarrow> \<not> is_finite (progress rnd ship))"
  using progress_range [of rnd ship] progress_zero [of ship rnd] by blast

theorem ship_progress_percent_witness:
  "rounding_for (\<lambda>x. x)
     \<lparr>s_id = 0, containers = 40, containers_remaining = 30, arrival_time = 0,
      is_docked = True, docked_at = Some 0, assigned_cranes = [0]\<rparr> \<and>
   in_percent_range (progress (\<lambda>x. x)
     \<lparr>s_id = 0, containers = 40, containers_remaining = 30, arrival_time = 0,
      is_docked = True, docked_at = Some 0, assigned_cranes = [0]\<rparr>) \<and>
   \<not> is_finite (progress (\<lambda>x. x)
     \<lparr>s_id = 1, containers = 0, containers_remaining = 0, arrival_time = 0,
      is_docked = False, docked_at = None, assigned_cranes = []\<rparr>)"
  using ship_progress_percent [of "\<lambda>x. x"
      "\<lparr>s_id = 0, containers = 40, containers_remaining = 30, arrival_time = 0,
        is_docked = True, docked_at = Some 0, assigned_cranes = [0]\<rparr>"]
    ship_progress_percent [of "\<lambda>x. x"
      "\<lparr>s_id = 1, containers = 0, containers_remaining = 0, arrival_time = 0,
        is_docked = False, docked_at = None, assigned_cranes = []\<rparr>"]
  by (simp add: rounding_for_def)

section \<open>Properties of the drag and drop\<close>

lemma digit_value_digit_char: "d < 10 \<Longrightarrow> digit_value 10 (digit_char d) = Some d"
  by (simp add: digit_value_def digit_table_def digit_char_def)

lemma digits_lt: "d \<in> set (digits n) \<Longrightarrow> d < 10"
  by (induction n rule: digits.induct) (subst (asm) digits.simps, auto split: if_splits)

lemma digits_nonempty: "digits n \<noteq> []"
  by (subst digits.simps) simp

lemma digits_value_digits: "digits_value 10 (digits n) = n"
proof (induction n rule: digits.induct)
  case (1 n)
  show ?case
  proof (cases "n < 10")
    case True
    then show ?thesis by (subst digits.simps) (simp add: digits_value_def)
  next
    case False
    with 1 have "digits_value 10 (digits (n div 10)) = n div 10" by simp
    with False show ?thesis
      by (subst digits.simps) (simp add: digits_value_def)
  qed
qed

lemma digit_char_not_space: "d < 10 \<Longrightarrow> \<not> is_space (digit_char d)"
  by (simp add: is_space_def digit_char_def)

lemma digit_char_not_sign: "d < 10 \<Longrightarrow> digit_char d \<noteq> CHR ''-'' \<and> digit_char d \<noteq> CHR ''+''"
  by (simp add: digit_char_def)

lemma digit_char_not_x: "d < 10 \<Longrightarrow> digit_char d \<noteq> CHR ''x'' \<and> digit_char d \<noteq> CHR ''X''"
  by (simp add: digit_char_def)

lemma decimal_digit: "c \<in> set (decimal n) \<Longrightarrow> \<exists>d<10. c = digit_char d"
  by (auto simp: decimal_def dest: digits_lt)

lemma decimal_nonempty: "decimal n \<noteq> []"
  by (simp add: decimal_def digits_nonempty)

lemma not_x: "CHR ''x'' \<notin> set (decimal n)"
proof
  assume "CHR ''x'' \<in> set (decimal n)"
  then obtain d where "d < 10" "CHR ''x'' = digit_char d" using decimal_digit by blast
  then show False using digit_char_not_x [of d] by simp
qed

lemma not_X: "CHR ''X'' \<notin> set (decimal n)"
proof
  assume "CHR ''X'' \<in> set (decimal n)"
  then obtain d where "d < 10" "CHR ''X'' = digit_char d" using decimal_digit by blast
  then show False using digit_char_not_x [of d] by simp
qed

lemma decimal_no_hex_prefix:
  "\<not> (take 2 (decimal n) = ''0x'' \<or> take 2 (decimal n) = ''0X'')"
proof
  assume h: "take 2 (decimal n) = ''0x'' \<or> take 2 (decimal n) = ''0X''"
  have sub: "set (take 2 (decimal n)) \<subseteq> set (decimal n)" by (rule set_take_subset)
  from h show False
  proof
    assume "take 2 (decimal n) = ''0x''"
    then have "set (take 2 (decimal n)) = set ''0x''" by (rule arg_cong)
    then have "CHR ''x'' \<in> set (take 2 (decimal n))" by simp
    with sub not_x show False by blast
  next
    assume "take 2 (decimal n) = ''0X''"
    then have "set (take 2 (decimal n)) = set ''0X''" by (rule arg_cong)
    then have "CHR ''X'' \<in> set (take 2 (decimal n))" by simp
    with sub not_X show False by blast
  qed
qed

lemma dropWhile_space_decimal: "dropWhile is_space (decimal n) = decimal n"
proof (cases "decimal n")
  case Nil
  then show ?thesis by simp
next
  case (Cons c cs)
  then have "c \<in> set (decimal n)" by simp
  then obtain d where "d < 10" "c = digit_char d" using decimal_digit by blast
  then have "\<not> is_space c" by (simp add: digit_char_not_space)
  with Cons show ?thesis by simp
qed

lemma takeWhile_digits_decimal:
  "takeWhile (\<lambda>c. digit_value 10 c \<noteq> None) (decimal n) = decimal n"
proof -
  have "digit_value 10 c \<noteq> None" if "c \<in> set (decimal n)" for c
  proof -
    from that obtain d where "d < 10" "c = digit_char d" using decimal_digit by blast
    then show ?thesis by (simp add: digit_value_digit_char)
  qed
  then show ?thesis by (simp add: takeWhile_eq_all_conv)
qed

lemma map_digit_value_decimal:
  "map (\<lambda>c. the (digit_value 10 c)) (decimal n) = digits n"
proof -
  have "map (\<lambda>c. the (digit_value 10 c)) (map digit_char (digits n)) = map (\<lambda>d. d) (digits n)"
    unfolding map_map
    by (rule map_cong) (auto simp: digit_value_digit_char dest: digits_lt)
  then show ?thesis by (simp add: decimal_def)
qed

lemma parseInt_decimal: "parseInt (decimal n) = JNum (int n)"
proof -
  obtain c cs where cs: "decimal n = c # cs"
    using decimal_nonempty by (cases "decimal n") auto
  then have "c \<in> set (decimal n)" by simp
  then obtain d where d: "d < 10" "c = digit_char d" using decimal_digit by blast
  have sign: "c \<noteq> CHR ''-''" "c \<noteq> CHR ''+''" using d digit_char_not_sign by auto
  have s1: "dropWhile is_space (decimal n) = decimal n"
    by (rule dropWhile_space_decimal)
  have neg: "(case decimal n of c # _ \<Rightarrow> c = CHR ''-'' | [] \<Rightarrow> False) = False"
    using cs sign by simp
  have s2: "(case decimal n of c # r \<Rightarrow> if c = CHR ''-'' \<or> c = CHR ''+'' then r else decimal n
             | [] \<Rightarrow> []) = decimal n"
    using cs sign by simp
  have hex: "(take 2 (decimal n) = ''0x'' \<or> take 2 (decimal n) = ''0X'') = False"
    using decimal_no_hex_prefix [of n] by (rule eq_False [THEN iffD2])
  have ds: "map (\<lambda>c. the (digit_value 10 c))
              (takeWhile (\<lambda>c. digit_value 10 c \<noteq> None) (decimal n)) = digits n"
    by (simp only: takeWhile_digits_decimal map_digit_value_decimal)
  have "parseInt (decimal n) =
          (if digits n = [] then JNaN else JNum (1 * int (digits_value 10 (digits n))))"
    unfolding parseInt_def Let_def s1 neg s2 hex if_False ds ..
  then show ?thesis
    by (simp add: digits_nonempty digits_value_digits)
qed

lemma parseInt_toString:
  "n \<le> MAX_SAFE_INTEGER \<Longrightarrow> parseInt (toString beyond n) = JNum (int n)"
  by (simp add: toString_def parseInt_decimal)

lemma dockCalls_append: "dockCalls (xs @ ys) = dockCalls xs @ dockCalls ys"
  by (simp add: dockCalls_def)

lemma received_failed: "received (failed w m h) = received h"
  by (simp add: received_def failed_def)

lemma received_game: "received (h\<lparr>game := Some (g, got)\<rparr>) = got"
  by (simp add: received_def)

lemma received_gameState: "received (h\<lparr>gameState := x\<rparr>) = received h"
  by (simp add: received_def)

lemma tryRead_keeps:
  assumes "\<And>v h'. dockCalls (received h') = D \<Longrightarrow> dockCalls (received (k v h')) = D"
    and "dockCalls (received h) = D"
  shows "dockCalls (received (tryRead r k h)) = D"
  using assms by (cases r) (simp_all add: tryRead_def received_failed)

lemma recording_processRandomEvents:
  "wg_processRandomEvents (recording api) (g, got) =
     (fst (wg_processRandomEvents api g),
      (snd (wg_processRandomEvents api g), got @ [GotProcessRandomEvents]))"
  by (simp add: recording_def split_beta)

lemma recording_dockShip:
  "wg_dockShip (recording api) a b (g, got) =
     (fst (wg_dockShip api a b g), (snd (wg_dockShip api a b g), got @ [GotDockShip a b]))"
  by (simp add: recording_def split_beta)

lemma dockCalls_got_read: "dockCalls (got @ [GotProcessRandomEvents]) = dockCalls got"
  by (simp add: dockCalls_def)

lemma updateGameState_keeps:
  assumes "dockCalls (received h) = D" and "dockCalls got = D"
  shows "dockCalls (received (updateGameState (recording api) (g, got) h)) = D"
  unfolding updateGameState_def
  apply (rule tryRead_keeps)+
       apply (simp only: recording_processRandomEvents prod.case)
       apply (rule tryRead_keeps)+
         apply (simp only: received_gameState)
        apply assumption
       apply (simp only: received_game dockCalls_got_read assms(2))
      apply assumption+
  apply (rule assms(1))
  done

lemma dockShip_received:
  assumes "game h = Some (g, got)"
  shows "dockCalls (received (fst (dockShip (recording api) a b h))) = dockCalls got @ [(a, b)]"
proof -
  let ?got = "got @ [GotDockShip a b]"
  let ?g = "snd (wg_dockShip api a b g)"
  have d: "dockCalls ?got = dockCalls got @ [(a, b)]"
    by (simp add: dockCalls_def)
  have r: "dockCalls (received (h\<lparr>game := Some (?g, ?got)\<rparr>)) = dockCalls got @ [(a, b)]"
    by (simp only: received_game d)
  show ?thesis
  proof (cases "fst (wg_dockShip api a b g)")
    case None
    then have "fst (dockShip (recording api) a b h) =
                 updateGameState (recording api) (?g, ?got) (h\<lparr>game := Some (?g, ?got)\<rparr>)"
      using assms by (simp add: dockShip_def recording_dockShip)
    then show ?thesis by (simp only: updateGameState_keeps [OF r d])
  next
    case (Some e)
    then have "fst (dockShip (recording api) a b h) =
                 failed ''Failed to dock ship: '' e (h\<lparr>game := Some (?g, ?got)\<rparr>)"
      using assms by (simp add: dockShip_def recording_dockShip)
    then show ?thesis by (simp only: received_failed r)
  qed
qed

lemma dockShip_thrown:
  assumes "game h = Some (g, got)"
  shows "snd (dockShip (recording api) a b h) = fst (wg_dockShip api a b g)"
  using assms
  by (cases "fst (wg_dockShip api a b g)") (simp_all add: dockShip_def recording_dockShip)

lemma dragAndDrop_player:
  assumes "b_is_free berth" and "s_id ship \<le> MAX_SAFE_INTEGER"
  shows "dragAndDrop api beyond True ship berth h =
           dockShip api (JNum (int (s_id ship))) (JNum (int (b_id berth))) h"
  using assms
  by (simp add: dragAndDrop_def handleDrop_def Port_onDropShip_def Ship_onDragStart_def
      getData_def parseInt_toString)

text \<open>
  Claim C9. When a ship of the player's port is dragged and dropped on a free berth of
  that port, the game object receives \<open>dockShip\<close> exactly once, with the ship's
  identifier as the first argument and the berth's as the second: whatever the game
  object does, the one that keeps what it receives has, after the drop, one more
  \<open>dockShip\<close> than before, the last, with these arguments in this order; and the
  exception that leaves the drop is the one that this call of the object throws. The
  identifier is a safe integer. (The property type of Port.tsx names the parameters of
  \<open>onDockShip\<close> in the other order; only the order of the values counts.)
\<close>

theorem drop_ship_docks_once:
  assumes "game h = Some (g, got)" and "b_is_free berth"
    and "s_id ship \<le> MAX_SAFE_INTEGER"
  shows "dockCalls (received (fst (dragAndDrop (recording api) beyond True ship berth h))) =
           dockCalls got @ [(JNum (int (s_id ship)), JNum (int (b_id berth)))] \<and>
         snd (dragAndDrop (recording api) beyond True ship berth h) =
           fst (wg_dockShip api (JNum (int (s_id ship))) (JNum (int (b_id berth))) g)"
  using assms
  by (simp only: dragAndDrop_player dockShip_received dockShip_thrown simp_thms)

theorem drop_ship_docks_once_witness:
  "game freshHook = Some ((), []) \<and>
   b_is_free \<lparr>b_id = 1, b_is_free = True, occupied_by = None\<rparr> \<and>
   s_id \<lparr>s_id = 7, containers = 40, containers_remaining = 40, arrival_time = 0,
        is_docked = False, docked_at = None, assigned_cranes = []\<rparr> \<le> MAX_SAFE_INTEGER \<and>
   dockCalls (received (fst (dragAndDrop (recording idleGame) (\<lambda>n. ''1e+21'') True
       \<lparr>s_id = 7, containers = 40, containers_remaining = 40, arrival_time = 0,
        is_docked = False, docked_at = None, assigned_cranes = []\<rparr>
       \<lparr>b_id = 1, b_is_free = True, occupied_by = None\<rparr> freshHook))) =
     [(JNum 7, JNum 1)] \<and>
   snd (dragAndDrop (recording idleGame) (\<lambda>n. ''1e+21'') True
       \<lparr>s_id = 7, containers = 40, containers_remaining = 40, arrival_time = 0,
        is_docked = False, docked_at = None, assigned_cranes = []\<rparr>
       \<lparr>b_id = 1, b_is_free = True, occupied_by = None\<rparr> freshHook) = None"
  using drop_ship_docks_once [of freshHook "()" "[]"
      "\<lparr>b_id = 1, b_is_free = True, occupied_by = None\<rparr>"
      "\<lparr>s_id = 7, containers = 40, containers_remaining = 40, arrival_time = 0,
        is_docked = False, docked_at = None, assigned_cranes = []\<rparr>"
      idleGame "\<lambda>n. ''1e+21''"]
  by (simp add: freshHook_def dockCalls_def MAX_SAFE_INTEGER_def idleGame_def)

section \<open>Properties of the turn counter\<close>

lemma apply_event_clock:
  assumes "apply_event e g = Some g'" and "\<not> is_clock e"
  shows "turn g' = turn g \<and> game_over g' = game_over g"
  using assms
  by (cases e; cases "get_port AI g"; cases "get_port Human g")
     (auto simp: apply_event_def is_clock_def set_port_def
           split: if_splits option.splits Party.splits)

lemma clock_emit: "\<not> is_clock e \<Longrightarrow> clock (emit e s) = clock s"
  by (cases "apply_event e (projected s)")
     (simp_all add: emit_def clock_def apply_event_clock)

lemma clock_effects: "clock (s\<lparr>active_effects := x\<rparr>) = clock s"
  by (simp add: clock_def)

lemma clock_pending: "clock (s\<lparr>pending_events := x\<rparr>) = clock s"
  by (simp add: clock_def)

lemma clock_foldl:
  assumes "\<And>s x. clock (f s x) = clock s"
  shows "clock (foldl f s xs) = clock s"
  by (induction xs arbitrary: s) (simp_all add: assms)

lemma clock_dock_ship: "clock (snd (dock_ship party sid bid s)) = clock s"
  by (cases "check_dock sid bid (get_port party (projected s))")
     (simp_all add: dock_ship_def clock_emit is_clock_def)

lemma clock_assign_crane: "clock (snd (assign_crane party cid sid s)) = clock s"
  by (cases "check_assign cid sid (get_port party (projected s))")
     (simp_all add: assign_crane_def clock_emit is_clock_def)

lemma clock_spawnShips: "clock (spawnShips ctx n s) = clock s"
  by (induction n arbitrary: s) (simp_all add: clock_emit is_clock_def)

lemma clock_process_ship: "clock (process_ship party sid s) = clock s"
  by (cases "find_ship sid (get_port party (projected s))")
     (simp_all add: process_ship_def Let_def clock_emit is_clock_def)

lemma clock_processContainers: "clock (processContainers party s) = clock s"
  unfolding processContainers_def by (rule clock_foldl) (rule clock_process_ship)

lemma clock_apply_action: "clock (apply_action party a s) = clock s"
  by (cases a) (simp_all add: apply_action_def clock_dock_ship clock_assign_crane)

lemma clock_aiTakeTurn: "clock (aiTakeTurn ctx s) = clock s"
proof -
  have "clock (foldl (\<lambda>s' a. apply_action AI a s') s (ai_policy ctx (ai_port (projected s))))
          = clock s"
    by (rule clock_foldl) (rule clock_apply_action)
  then show ?thesis by (simp add: aiTakeTurn_def clock_processContainers)
qed

lemma clock_expire:
  "clock (foldl (\<lambda>s' e. emit (EffectExpired (e_kind e)) s') s es) = clock s"
  by (rule clock_foldl) (simp add: clock_emit is_clock_def)

lemma clock_resolveRandomEvent: "clock (resolveRandomEvent ctx s) = clock s"
  by (cases "event_draw ctx")
     (simp_all add: resolveRandomEvent_def Let_def clock_effects clock_pending clock_expire
        clock_spawnShips clock_emit is_clock_def)

lemma clock_finishTurn:
  assumes "\<not> game_over (projected s)"
  shows "clock (finishTurn wp wa s) = (Suc (turn (projected s)), 10 \<le> Suc (turn (projected s)))"
  using assms
  by (simp add: finishTurn_def Let_def emit_def apply_event_def clock_def)

lemma clock_end_turn:
  assumes "\<not> game_over (projected s)"
  shows "clock (end_turn ctx s) = (Suc (turn (projected s)), 10 \<le> Suc (turn (projected s)))"
proof -
  let ?s3 = "aiTakeTurn ctx (processContainers Human s)"
  let ?s4 = "if Suc (turn (projected ?s3)) mod 3 = 0 then spawnShips ctx 2 ?s3 else ?s3"
  let ?s5 = "resolveRandomEvent ctx ?s4"
  have "clock ?s4 = clock s"
    by (simp add: clock_spawnShips clock_aiTakeTurn clock_processContainers)
  then have c5: "clock ?s5 = clock s"
    by (simp only: clock_resolveRandomEvent)
  then have live: "\<not> game_over (projected ?s5)" and t: "turn (projected ?s5) = turn (projected s)"
    using assms by (simp_all add: clock_def)
  have "end_turn ctx s =
          finishTurn (length (waiting_ships (player_port (projected (processContainers Human s)))))
            (length (waiting_ships (ai_port (projected (processContainers Human s))))) ?s5"
    by (simp add: end_turn_def Let_def)
  then show ?thesis by (simp only: clock_finishTurn [OF live] t)
qed

lemma submit_over:
  "game_over (projected s) \<Longrightarrow> submitCommand ctx cmd s = (Some GameOverError, s)"
  by (simp add: submitCommand_def)

lemma clock_submit:
  assumes "\<not> game_over (projected s)"
  shows "clock (snd (submitCommand ctx cmd s)) =
           (if cmd = EndTurn then (Suc (turn (projected s)), 10 \<le> Suc (turn (projected s)))
            else clock s)"
  using assms
  by (cases cmd)
     (simp_all add: submitCommand_def clock_dock_ship clock_assign_crane clock_spawnShips
        clock_end_turn)

lemma reachable_clock:
  assumes "reachable s"
  shows "game_over (projected s) \<longleftrightarrow> turn (projected s) = 10"
    and "turn (projected s) \<le> 10"
  using assms
proof (induction rule: reachable.induct)
  case new
  {
    case 1
    show ?case by (simp add: newSession_def initial_game_def)
  next
    case 2
    show ?case by (simp add: newSession_def initial_game_def)
  }
next
  case (command s ctx cmd)
  {
    case 1
    show ?case
    proof (cases "game_over (projected s)")
      case True
      with command.IH show ?thesis by (simp add: submit_over)
    next
      case False
      with command.IH clock_submit [OF False, of ctx cmd] show ?thesis
        by (auto simp: clock_def split: if_splits)
    qed
  next
    case 2
    show ?case
    proof (cases "game_over (projected s)")
      case True
      with command.IH show ?thesis by (simp add: submit_over)
    next
      case False
      with command.IH clock_submit [OF False, of ctx cmd] show ?thesis
        by (auto simp: clock_def split: if_splits)
    qed
  }
next
  case (drain s)
  {
    case 1
    with drain.IH show ?case by (simp add: drainRandomEvents_def)
  next
    case 2
    with drain.IH show ?case by (simp add: drainRandomEvents_def)
  }
qed

lemma reachable_run: "reachable s \<Longrightarrow> reachable (run cs s)"
proof (induction cs arbitrary: s)
  case Nil
  then show ?case by (simp add: run_def)
next
  case (Cons c cs)
  have "reachable (snd (submitCommand (fst c) (snd c) s))"
    by (rule reachable.command [OF Cons.prems])
  then have "reachable (run cs (snd (submitCommand (fst c) (snd c) s)))"
    by (rule Cons.IH)
  then show ?case by (simp add: run_def)
qed

text \<open>
  Claim C2. EndTurn never lowers the turn counter: in a running game it raises it by
  one, and after the end of the game it changes nothing. In every session a host can
  reach, the game is over exactly when the counter is 10, never earlier (and the
  counter never passes 10). In a session whose game is over every command is rejected
  with GameOverError and leaves the session as it is.
\<close>

theorem turn_counter_and_game_over:
  assumes "reachable s"
  shows "turn (projected s) \<le> turn (projected (snd (submitCommand ctx EndTurn s))) \<and>
         (\<not> game_over (projected s) \<longrightarrow>
            turn (projected (snd (submitCommand ctx EndTurn s))) = Suc (turn (projected s))) \<and>
         (game_over (projected s) \<longleftrightarrow> turn (projected s) = 10) \<and>
         turn (projected s) \<le> 10 \<and>
         (game_over (projected s) \<longrightarrow> submitCommand ctx cmd s = (Some GameOverError, s))"
proof -
  have up: "turn (projected (snd (submitCommand ctx EndTurn s))) = Suc (turn (projected s))"
    if "\<not> game_over (projected s)"
    using clock_submit [OF that, of ctx EndTurn] by (simp add: clock_def)
  have "turn (projected s) \<le> turn (projected (snd (submitCommand ctx EndTurn s)))"
  proof (cases "game_over (projected s)")
    case True
    then show ?thesis by (simp add: submit_over)
  next
    case False
    then show ?thesis by (simp add: up)
  qed
  with up reachable_clock [OF assms] submit_over show ?thesis by blast
qed

lemma ten_turns_over: "game_over (projected ten_turns)"
  unfolding ten_turns_def by code_simp

theorem turn_counter_and_game_over_witness:
  "reachable newSession \<and> \<not> game_over (projected newSession) \<and>
   turn (projected newSession) = 0 \<and>
   turn (projected (snd (submitCommand calm EndTurn newSession))) = 1 \<and>
   reachable ten_turns \<and> game_over (projected ten_turns) \<and> turn (projected ten_turns) = 10 \<and>
   turn (projected (snd (submitCommand calm EndTurn ten_turns))) = 10 \<and>
   submitCommand calm (DockShip 0 0) ten_turns = (Some GameOverError, ten_turns)"
proof -
  have r: "reachable ten_turns"
    unfolding ten_turns_def by (rule reachable_run [OF reachable.new])
  have e: "snd (submitCommand calm EndTurn ten_turns) = ten_turns"
    by (simp add: submit_over ten_turns_over)
  have n: "\<not> game_over (projected newSession)" "turn (projected newSession) = 0"
    by (simp_all add: newSession_def initial_game_def)
  from turn_counter_and_game_over [OF r, of calm "DockShip 0 0"]
    turn_counter_and_game_over [OF reachable.new, of calm EndTurn]
    r reachable.new ten_turns_over e n
  show ?thesis by simp
qed

end
